theory Spec2Isabelle
  imports Main
begin

section \<open>Decoded JSON values and the Python operations applied to them\<close>

text \<open>
  The value of \<^verbatim>\<open>await response.json()\<close>: a Python object built from dicts, lists, strings,
  integers, booleans and None. A dict is an association list in insertion order whose keys
  are distinct, as a decoded dict's keys are. Strings are byte strings (UTF-8). JSON
  numbers with a fraction are not represented.
\<close>

datatype json =
    JNull
  | JBool bool
  | JInt int
  | JStr string
  | JArr "json list"
  | JObj "(string \<times> json) list"

text \<open>
  The exceptions that can leave the cog's coroutines: the three structural errors of
  subscripting and iterating, a body that does not decode, and a fault of the HTTP client.
\<close>

datatype py_error = KeyError | IndexError | TypeError | DecodeError | ClientError

definition and_then :: "'e + 'a \<Rightarrow> ('a \<Rightarrow> 'e + 'b) \<Rightarrow> 'e + 'b" where
  "and_then r f = (case r of Inl e \<Rightarrow> Inl e | Inr v \<Rightarrow> f v)"

text \<open>\<^verbatim>\<open>obj[key]\<close> with a string key.\<close>

fun py_getitem :: "json \<Rightarrow> string \<Rightarrow> py_error + json" where
  "py_getitem (JObj kvs) k = (case map_of kvs k of None \<Rightarrow> Inl KeyError | Some v \<Rightarrow> Inr v)"
| "py_getitem _ k = Inl TypeError"

text \<open>\<^verbatim>\<open>obj[0]\<close>. A decoded dict has string keys only, so \<^verbatim>\<open>0\<close> is never one of them.\<close>

fun py_getitem0 :: "json \<Rightarrow> py_error + json" where
  "py_getitem0 (JArr []) = Inl IndexError"
| "py_getitem0 (JArr (x # xs)) = Inr x"
| "py_getitem0 (JStr []) = Inl IndexError"
| "py_getitem0 (JStr (c # cs)) = Inr (JStr [c])"
| "py_getitem0 (JObj kvs) = Inl KeyError"
| "py_getitem0 _ = Inl TypeError"

text \<open>\<^verbatim>\<open>for item in obj\<close>: a list gives its elements, a dict its keys, a string its characters.\<close>

fun py_iter :: "json \<Rightarrow> py_error + json list" where
  "py_iter (JArr xs) = Inr xs"
| "py_iter (JObj kvs) = Inr (map (\<lambda>kv. JStr (fst kv)) kvs)"
| "py_iter (JStr s) = Inr (map (\<lambda>c. JStr [c]) s)"
| "py_iter _ = Inl TypeError"

text \<open>A library function on \<^verbatim>\<open>str\<close> applied to a decoded value: anything but a string raises.\<close>

fun as_str :: "json \<Rightarrow> py_error + string" where
  "as_str (JStr s) = Inr s"
| "as_str _ = Inl TypeError"

subsection \<open>Rendering values: \<^verbatim>\<open>str\<close> and \<^verbatim>\<open>repr\<close>\<close>

definition digit_char :: "nat \<Rightarrow> char" where
  "digit_char d = ''0123456789'' ! d"

fun show_nat :: "nat \<Rightarrow> string" where
  "show_nat n = (if n < 10 then [digit_char n] else show_nat (n div 10) @ [digit_char (n mod 10)])"

declare show_nat.simps [simp del]

definition show_int :: "int \<Rightarrow> string" where
  "show_int i = (if i < 0 then CHR ''-'' # show_nat (nat (- i)) else show_nat (nat i))"

definition hex_lower :: "nat \<Rightarrow> char" where
  "hex_lower d = ''0123456789abcdef'' ! d"

definition hex_upper :: "nat \<Rightarrow> char" where
  "hex_upper d = ''0123456789ABCDEF'' ! d"

definition join :: "'a list \<Rightarrow> 'a list list \<Rightarrow> 'a list" where
  "join sep xs = (case xs of [] \<Rightarrow> [] | y # ys \<Rightarrow> y @ concat (map (\<lambda>z. sep @ z) ys))"

text \<open>
  \<^verbatim>\<open>repr\<close> of a string: double quotes only when the string has a single quote and no double
  quote; the quote, the backslash and the control characters are escaped. A byte above
  0x7F is part of the UTF-8 encoding of a code point and is kept: this is \<^verbatim>\<open>repr\<close> on strings
  whose code points beyond ASCII are printable (Python escapes the others, such as
  U+00A0). \<^verbatim>\<open>repr\<close> is reached only when an identifier or a count is a list or a dict.
\<close>

definition repr_char :: "char \<Rightarrow> char \<Rightarrow> string" where
  "repr_char q c =
     (if c = q \<or> c = CHR 0x5C then [CHR 0x5C, c]
      else if c = CHR 0x09 then [CHR 0x5C, CHR ''t'']
      else if c = CHR 0x0A then [CHR 0x5C, CHR ''n'']
      else if c = CHR 0x0D then [CHR 0x5C, CHR ''r'']
      else if (of_char c :: nat) < 32 \<or> c = CHR 0x7F
        then [CHR 0x5C, CHR ''x'', hex_lower (of_char c div 16), hex_lower (of_char c mod 16)]
      else [c])"

definition repr_str :: "string \<Rightarrow> string" where
  "repr_str s =
     (let q = (if CHR 0x27 \<in> set s \<and> CHR 0x22 \<notin> set s then CHR 0x22 else CHR 0x27)
      in q # concat (map (repr_char q) s) @ [q])"

fun py_repr :: "json \<Rightarrow> string" where
  "py_repr JNull = ''None''"
| "py_repr (JBool b) = (if b then ''True'' else ''False'')"
| "py_repr (JInt i) = show_int i"
| "py_repr (JStr s) = repr_str s"
| "py_repr (JArr xs) = ''['' @ join '', '' (map py_repr xs) @ '']''"
| "py_repr (JObj kvs) =
     ''{'' @ join '', '' (map (\<lambda>kv. repr_str (fst kv) @ '': '' @ py_repr (snd kv)) kvs) @ ''}''"

text \<open>\<^verbatim>\<open>str(v)\<close>, which \<^verbatim>\<open>str.format\<close> applies to each argument: a string is itself.\<close>

definition py_str :: "json \<Rightarrow> string" where
  "py_str v = (case v of JStr s \<Rightarrow> s | _ \<Rightarrow> py_repr v)"

subsection \<open>\<^verbatim>\<open>urllib.parse.quote_plus\<close>\<close>

definition always_safe :: "char \<Rightarrow> bool" where
  "always_safe c \<longleftrightarrow>
     c \<in> set ''ABCDEFGHIJKLMNOPQRSTUVWXYZabcdefghijklmnopqrstuvwxyz0123456789_.-~''"

definition quote_byte :: "string \<Rightarrow> char \<Rightarrow> string" where
  "quote_byte safe c =
     (if always_safe c \<or> c \<in> set safe then [c]
      else [CHR ''%'', hex_upper (of_char c div 16), hex_upper (of_char c mod 16)])"

definition quote :: "string \<Rightarrow> string \<Rightarrow> string" where
  "quote safe s = concat (map (quote_byte safe) s)"

definition quote_plus :: "string \<Rightarrow> string" where
  "quote_plus s =
     (if CHR '' '' \<notin> set s then quote [] s
      else map (\<lambda>c. if c = CHR '' '' then CHR ''+'' else c) (quote '' '' s))"

section \<open>Constants and collaborators\<close>

text \<open>
  \<^verbatim>\<open>bot.constants\<close> is not part of the source at hand: the glyphs of \<^verbatim>\<open>Emojis\<close>, the two
  \<^verbatim>\<open>Colours\<close> and the API key \<^verbatim>\<open>Tokens.youtube\<close> are parameters of the model.
\<close>

record constants =
  emoji_post_detail :: string
  emoji_user :: string
  emoji_view :: string
  emoji_like :: string
  emoji_youtube :: string
  colour_dark_green :: int
  colour_soft_red :: int
  KEY :: string

text \<open>
  \<^verbatim>\<open>html.unescape\<close> and \<^verbatim>\<open>discord.utils.escape_markdown\<close> are library functions from strings
  to strings; the cog only composes them, so they are parameters as well.
\<close>

record library =
  unescape :: "string \<Rightarrow> string"
  escape_markdown :: "string \<Rightarrow> string"

definition SEARCH_API :: string where
  "SEARCH_API = ''https://www.googleapis.com/youtube/v3/search''"

definition STATS_API :: string where
  "STATS_API = ''https://www.googleapis.com/youtube/v3/videos''"

text \<open>The two URL templates end in their only placeholder, so each is kept as its prefix.\<close>

definition YOUTUBE_VIDEO_URL :: string where
  "YOUTUBE_VIDEO_URL = ''https://www.youtube.com/watch?v=''"

definition YOUTUBE_SEARCH_URL :: string where
  "YOUTUBE_SEARCH_URL = ''https://www.youtube.com/results?search_query=''"

subsection \<open>The HTTP session, the log and the channel\<close>

record request =
  req_url :: string
  req_params :: "(string \<times> json) list"

record response =
  status :: int
  body :: "json option"

text \<open>
  A GET either yields a response or raises in the client. The provider is a function of
  the requests made so far and the present one, so that it may answer the same request
  differently at different times. A body of \<open>None\<close> is one that does not decode as JSON.
\<close>

datatype outcome = Responded response | Raised

type_synonym http = "request list \<Rightarrow> request \<Rightarrow> outcome"

datatype level = ERROR | WARNING

record embed =
  embed_colour :: int
  embed_title :: string
  embed_url :: "string option"
  embed_description :: string

text \<open>What the cog does to the outside: the requests it made, its log lines, the replies sent.\<close>

record world =
  requests :: "request list"
  logs :: "(level \<times> string) list"
  sent :: "embed list"

definition http_get :: "http \<Rightarrow> world \<Rightarrow> request \<Rightarrow> outcome \<times> world" where
  "http_get env w rq = (env (requests w) rq, w\<lparr>requests := requests w @ [rq]\<rparr>)"

definition log :: "level \<Rightarrow> string \<Rightarrow> world \<Rightarrow> world" where
  "log lv msg w = w\<lparr>logs := logs w @ [(lv, msg)]\<rparr>"

definition send :: "embed \<Rightarrow> world \<Rightarrow> world" where
  "send e w = w\<lparr>sent := sent w @ [e]\<rparr>"

section \<open>The cog\<close>

text \<open>
  The dataclass annotations are not enforced by Python: the fields of \<^verbatim>\<open>VideoStatistics\<close>
  and the \<^verbatim>\<open>id\<close> of a \<^verbatim>\<open>Video\<close> hold whatever decoded value the code stores in them.
\<close>

record VideoStatistics =
  view_count :: json
  like_count :: json

record Video =
  title :: string
  username :: string
  video_id :: json
  video_statistics :: VideoStatistics

definition format_search_result :: "constants \<Rightarrow> int \<Rightarrow> Video \<Rightarrow> string" where
  "format_search_result c index result =
     ''**'' @ show_int index @ ''. ['' @ title result @ ''](''
       @ YOUTUBE_VIDEO_URL @ py_str (video_id result) @ '')**'' @ [CHR 0x0A]
     @ emoji_post_detail c @ '' '' @ emoji_user c @ '' '' @ username result @ '' ''
       @ emoji_view c @ '' '' @ py_str (view_count (video_statistics result)) @ '' ''
       @ emoji_like c @ '' '' @ py_str (like_count (video_statistics result)) @ [CHR 0x0A]"

definition stats_request :: "constants \<Rightarrow> json \<Rightarrow> request" where
  "stats_request c vid =
     \<lparr>req_url = STATS_API,
      req_params = [(''part'', JStr ''statistics''), (''id'', vid), (''key'', JStr (KEY c))]\<rparr>"

text \<open>Lines 77 to 81: the subscripts of the decoded body, each of which may raise.\<close>

definition extract_statistics :: "json \<Rightarrow> py_error + VideoStatistics" where
  "extract_statistics b =
     and_then (py_getitem b ''items'') (\<lambda>its.
     and_then (py_getitem0 its) (\<lambda>it.
     and_then (py_getitem it ''statistics'') (\<lambda>statistics.
     and_then (py_getitem statistics ''viewCount'') (\<lambda>vc.
     and_then (py_getitem statistics ''likeCount'') (\<lambda>lc.
     Inr \<lparr>view_count = vc, like_count = lc\<rparr>)))))"

definition get_statistics ::
  "constants \<Rightarrow> http \<Rightarrow> world \<Rightarrow> json \<Rightarrow> (py_error + VideoStatistics option) \<times> world" where
  "get_statistics c env w vid =
     (case http_get env w (stats_request c vid) of
        (Raised, w1) \<Rightarrow> (Inl ClientError, w1)
      | (Responded r, w1) \<Rightarrow>
          if status r \<noteq> 200 then
            (Inr None,
             log ERROR (''YouTube statistics response not successful: response code ''
                          @ show_int (status r)) w1)
          else
            (case body r of
               None \<Rightarrow> (Inl DecodeError, w1)
             | Some b \<Rightarrow>
                 (case extract_statistics b of
                    Inl e \<Rightarrow> (Inl e, w1)
                  | Inr s \<Rightarrow> (Inr (Some s), w1))))"

definition search_request :: "constants \<Rightarrow> string \<Rightarrow> request" where
  "search_request c search =
     \<lparr>req_url = SEARCH_API,
      req_params = [(''part'', JStr ''snippet''), (''q'', JStr search),
                    (''safeSearch'', JStr ''strict''), (''type'', JStr ''video''),
                    (''key'', JStr (KEY c))]\<rparr>"

definition item_video_id :: "json \<Rightarrow> py_error + json" where
  "item_video_id item = and_then (py_getitem item ''id'') (\<lambda>i. py_getitem i ''videoId'')"

definition item_text :: "json \<Rightarrow> string \<Rightarrow> py_error + string" where
  "item_text item k =
     and_then (py_getitem item ''snippet'') (\<lambda>sn. and_then (py_getitem sn k) as_str)"

text \<open>Lines 108 to 115: the arguments of \<^verbatim>\<open>Video(...)\<close> are evaluated from left to right.\<close>

definition make_video :: "library \<Rightarrow> json \<Rightarrow> VideoStatistics \<Rightarrow> py_error + Video" where
  "make_video lib item stats =
     and_then (item_text item ''title'') (\<lambda>t.
     and_then (item_text item ''channelTitle'') (\<lambda>u.
     and_then (item_video_id item) (\<lambda>vid.
     Inr \<lparr>title = escape_markdown lib (unescape lib t),
          username = escape_markdown lib (unescape lib u),
          video_id = vid,
          video_statistics = stats\<rparr>)))"

text \<open>The loop of lines 98 to 116, with \<^verbatim>\<open>results\<close> as the accumulator.\<close>

fun collect_videos ::
  "constants \<Rightarrow> library \<Rightarrow> http \<Rightarrow> world \<Rightarrow> json list \<Rightarrow> Video list
     \<Rightarrow> (py_error + Video list option) \<times> world" where
  "collect_videos c lib env w [] results = (Inr (Some results), w)"
| "collect_videos c lib env w (item # items) results =
     (case item_video_id item of
        Inl e \<Rightarrow> (Inl e, w)
      | Inr vid \<Rightarrow>
          (case get_statistics c env w vid of
             (Inl e, w1) \<Rightarrow> (Inl e, w1)
           | (Inr None, w1) \<Rightarrow>
               (Inr None,
                log WARNING
                  ''YouTube statistics response not successful, aborting youtube search'' w1)
           | (Inr (Some stats), w1) \<Rightarrow>
               (case make_video lib item stats of
                  Inl e \<Rightarrow> (Inl e, w1)
                | Inr v \<Rightarrow> collect_videos c lib env w1 items (results @ [v]))))"

definition search_youtube ::
  "constants \<Rightarrow> library \<Rightarrow> http \<Rightarrow> world \<Rightarrow> string
     \<Rightarrow> (py_error + Video list option) \<times> world" where
  "search_youtube c lib env w search =
     (case http_get env w (search_request c search) of
        (Raised, w1) \<Rightarrow> (Inl ClientError, w1)
      | (Responded r, w1) \<Rightarrow>
          if status r \<noteq> 200 then
            (Inr None,
             log ERROR (''YouTube search response not successful: response code ''
                          @ show_int (status r)) w1)
          else
            (case body r of
               None \<Rightarrow> (Inl DecodeError, w1)
             | Some video_snippet \<Rightarrow>
                 (case and_then (py_getitem video_snippet ''items'') py_iter of
                    Inl e \<Rightarrow> (Inl e, w1)
                  | Inr items \<Rightarrow> collect_videos c lib env w1 items [])))"

definition success_embed :: "constants \<Rightarrow> string \<Rightarrow> Video list \<Rightarrow> embed" where
  "success_embed c search results =
     \<lparr>embed_colour = colour_dark_green c,
      embed_title = emoji_youtube c @ '' YouTube results for '' @ [CHR 0x60] @ search @ [CHR 0x60],
      embed_url = Some (YOUTUBE_SEARCH_URL @ quote_plus search),
      embed_description =
        join [CHR 0x0A]
          (map (\<lambda>(index, result). format_search_result c (int index) result)
               (List.enumerate 1 results))\<rparr>"

definition failure_embed :: "constants \<Rightarrow> embed" where
  "failure_embed c =
     \<lparr>embed_colour = colour_soft_red c,
      embed_title = ''Something went wrong :/'',
      embed_url = None,
      embed_description = ''Sorry, we could not find a YouTube video.''\<rparr>"

text \<open>\<^verbatim>\<open>if results:\<close> is false for \<^verbatim>\<open>None\<close> and for the empty list.\<close>

fun truthy :: "'a list option \<Rightarrow> bool" where
  "truthy None = False"
| "truthy (Some []) = False"
| "truthy (Some (x # xs)) = True"

definition youtube ::
  "constants \<Rightarrow> library \<Rightarrow> http \<Rightarrow> world \<Rightarrow> string \<Rightarrow> (py_error + unit) \<times> world" where
  "youtube c lib env w search =
     (case search_youtube c lib env w search of
        (Inl e, w1) \<Rightarrow> (Inl e, w1)
      | (Inr results, w1) \<Rightarrow>
          if truthy results
          then (Inr (), send (success_embed c search (the results)) w1)
          else (Inr (), send (failure_embed c) w1))"

section \<open>Notions used to state the properties\<close>

text \<open>A left inverse of the decimal rendering, by which the rendering is injective.\<close>

definition digit_val :: "char \<Rightarrow> nat" where
  "digit_val ch = of_char ch - 48"

definition read_nat :: "string \<Rightarrow> nat" where
  "read_nat s = foldl (\<lambda>a ch. 10 * a + digit_val ch) 0 s"

text \<open>
  The requests that precede the statistics fetch of item \<open>k\<close> (counted from 0) of a search
  started in world \<open>w\<close>: those of \<open>w\<close>, the search request, and one statistics request for
  each earlier item.
\<close>

definition stats_history :: "constants \<Rightarrow> world \<Rightarrow> string \<Rightarrow> json list \<Rightarrow> nat \<Rightarrow> request list" where
  "stats_history c w search vids k =
     requests w @ search_request c search # map (stats_request c) (take k vids)"

text \<open>
  Item \<open>k\<close> of a search goes through: it has the video identifier \<open>vids ! k\<close>, its statistics
  fetch returns \<open>ss ! k\<close>, and the \<^verbatim>\<open>Video\<close> built from both is \<open>vs ! k\<close>.
\<close>

definition fetched ::
  "constants \<Rightarrow> library \<Rightarrow> http \<Rightarrow> world \<Rightarrow> string \<Rightarrow> json list \<Rightarrow> json list
     \<Rightarrow> VideoStatistics list \<Rightarrow> Video list \<Rightarrow> nat \<Rightarrow> bool" where
  "fetched c lib env w search items vids ss vs k \<longleftrightarrow>
     item_video_id (items ! k) = Inr (vids ! k) \<and>
     fst (get_statistics c env (w\<lparr>requests := stats_history c w search vids k\<rparr>) (vids ! k))
       = Inr (Some (ss ! k)) \<and>
     make_video lib (items ! k) (ss ! k) = Inr (vs ! k)"

text \<open>A stored value is an integer.\<close>

fun is_int :: "json \<Rightarrow> bool" where
  "is_int (JInt i) = True"
| "is_int _ = False"

section \<open>Sample values\<close>

text \<open>
  Concrete constants, provider behaviours and library functions on which the model is
  evaluated. The glyphs and the key are placeholders.
\<close>

definition sample_constants :: constants where
  "sample_constants =
     \<lparr>emoji_post_detail = ''>'', emoji_user = ''@'', emoji_view = ''V'', emoji_like = ''L'',
      emoji_youtube = ''YT'', colour_dark_green = 0x1f8b4c, colour_soft_red = 0xcd6d6d,
      KEY = ''k''\<rparr>"

text \<open>
  Two instances of the library parameters: the first decodes the entity \<^verbatim>\<open>&amp;\<close> and no
  other, the second puts a backslash before each character of the class
  \<^verbatim>\<open>[_\~|*`]\<close> of \<^verbatim>\<open>escape_markdown\<close>. They agree with the library on text with no other
  entity, no link and no block quote.
\<close>

fun decode_amp :: "string \<Rightarrow> string" where
  "decode_amp [] = []"
| "decode_amp (ch # s) =
     (if ch = CHR ''&'' \<and> take 4 s = ''amp;'' then CHR ''&'' # decode_amp (drop 4 s)
      else ch # decode_amp s)"

definition escape_chars :: "string \<Rightarrow> string" where
  "escape_chars s =
     concat (map (\<lambda>ch. if ch \<in> set [CHR ''_'', CHR 0x5C, CHR ''~'', CHR ''|'', CHR ''*'', CHR 0x60]
                         then [CHR 0x5C, ch] else [ch]) s)"

definition sample_library :: library where
  "sample_library = \<lparr>unescape = decode_amp, escape_markdown = escape_chars\<rparr>"

definition sample_item :: "string \<Rightarrow> string \<Rightarrow> string \<Rightarrow> json" where
  "sample_item vid t u =
     JObj [(''id'', JObj [(''videoId'', JStr vid)]),
           (''snippet'', JObj [(''title'', JStr t), (''channelTitle'', JStr u)])]"

definition sample_items :: "json list" where
  "sample_items =
     [sample_item ''abc123'' ''Lo-Fi &amp; *Chill*'' ''Beats_Co'',
      sample_item ''xyz'' ''Second'' ''Other'']"

definition sample_search_body :: json where
  "sample_search_body = JObj [(''items'', JArr sample_items)]"

definition sample_statistics :: VideoStatistics where
  "sample_statistics = \<lparr>view_count = JStr ''100'', like_count = JStr ''10''\<rparr>"

definition sample_stats_body :: json where
  "sample_stats_body =
     JObj [(''items'',
            JArr [JObj [(''statistics'',
                         JObj [(''viewCount'', JStr ''100''), (''likeCount'', JStr ''10'')])]])]"

definition sample_videos :: "Video list" where
  "sample_videos =
     [\<lparr>title = ''Lo-Fi & '' @ [CHR 0x5C] @ ''*Chill'' @ [CHR 0x5C] @ ''*'',
       username = ''Beats'' @ [CHR 0x5C] @ ''_Co'',
       video_id = JStr ''abc123'', video_statistics = sample_statistics\<rparr>,
      \<lparr>title = ''Second'', username = ''Other'',
       video_id = JStr ''xyz'', video_statistics = sample_statistics\<rparr>]"

definition ok :: "json \<Rightarrow> outcome" where
  "ok b = Responded \<lparr>status = 200, body = Some b\<rparr>"

definition forbidden :: outcome where
  "forbidden = Responded \<lparr>status = 403, body = None\<rparr>"

text \<open>Every request succeeds.\<close>

definition provider_ok :: http where
  "provider_ok hist rq =
     (if req_url rq = SEARCH_API then ok sample_search_body else ok sample_stats_body)"

text \<open>The search and the first statistics fetch succeed, every later request is refused.\<close>

definition provider_second_fails :: http where
  "provider_second_fails hist rq =
     (if req_url rq = SEARCH_API then ok sample_search_body
      else if length hist = 1 then ok sample_stats_body
      else forbidden)"

text \<open>Every request is refused.\<close>

definition provider_refuses :: http where
  "provider_refuses hist rq = forbidden"

text \<open>The search succeeds and finds nothing.\<close>

definition provider_empty :: http where
  "provider_empty hist rq = ok (JObj [(''items'', JArr [])])"

text \<open>Every request succeeds with a body that has no \<^verbatim>\<open>items\<close>.\<close>

definition provider_malformed :: http where
  "provider_malformed hist rq = ok (JObj [])"

text \<open>The search succeeds, every statistics answer has an empty \<^verbatim>\<open>items\<close> array.\<close>

definition provider_no_statistics :: http where
  "provider_no_statistics hist rq =
     (if req_url rq = SEARCH_API then ok sample_search_body else ok (JObj [(''items'', JArr [])]))"

text \<open>
  The search and the first statistics fetch succeed, every later statistics answer is a
  200 with a body that has no \<^verbatim>\<open>items\<close>.
\<close>

definition provider_second_malformed :: http where
  "provider_second_malformed hist rq =
     (if req_url rq = SEARCH_API then ok sample_search_body
      else if length hist = 1 then ok sample_stats_body
      else ok (JObj []))"

definition new_world :: world where
  "new_world = \<lparr>requests = [], logs = [], sent = []\<rparr>"

section \<open>Unfolding rules\<close>

lemmas sample_defs =
  sample_constants_def sample_library_def sample_item_def sample_items_def
  sample_search_body_def sample_statistics_def sample_stats_body_def sample_videos_def
  ok_def forbidden_def new_world_def escape_chars_def
  SEARCH_API_def STATS_API_def search_request_def stats_request_def

lemmas cog_defs =
  get_statistics_def search_youtube_def http_get_def log_def send_def extract_statistics_def
  and_then_def item_video_id_def item_text_def make_video_def youtube_def

section \<open>The decimal rendering is injective\<close>

lemma digit_val_digit_char: "d < 10 \<Longrightarrow> digit_val (digit_char d) = d"
proof -
  assume "d < 10"
  then have "d \<in> {0, 1, 2, 3, 4, 5, 6, 7, 8, 9}" by auto
  then show ?thesis by (auto simp: digit_val_def digit_char_def)
qed

lemma digit_char_not_minus: "d < 10 \<Longrightarrow> digit_char d \<noteq> CHR ''-''"
proof -
  assume "d < 10"
  then have "d \<in> {0, 1, 2, 3, 4, 5, 6, 7, 8, 9}" by auto
  then show ?thesis by (auto simp: digit_char_def)
qed

lemma read_nat_snoc: "read_nat (s @ [ch]) = 10 * read_nat s + digit_val ch"
  by (simp add: read_nat_def)

lemma read_show_nat: "read_nat (show_nat n) = n"
proof (induction n rule: show_nat.induct)
  case (1 n)
  show ?case
  proof (cases "n < 10")
    case True
    then show ?thesis
      by (simp add: show_nat.simps [of n] read_nat_def digit_val_digit_char)
  next
    case False
    with 1 show ?thesis
      by (simp add: show_nat.simps [of n] read_nat_snoc digit_val_digit_char)
  qed
qed

lemma show_nat_inj: "show_nat m = show_nat n \<Longrightarrow> m = n"
  by (metis read_show_nat)

lemma hd_show_nat: "show_nat n \<noteq> [] \<and> hd (show_nat n) \<noteq> CHR ''-''"
proof (induction n rule: show_nat.induct)
  case (1 n)
  show ?case
  proof (cases "n < 10")
    case True
    then show ?thesis
      by (simp add: show_nat.simps [of n] digit_char_not_minus)
  next
    case False
    with 1 show ?thesis
      by (simp add: show_nat.simps [of n])
  qed
qed

lemma show_int_inj: "show_int i = show_int j \<Longrightarrow> i = j"
  using hd_show_nat [of "nat i"] hd_show_nat [of "nat j"]
  by (auto simp: show_int_def dest!: show_nat_inj split: if_splits) (metis list.sel(1))+

section \<open>The result formatter\<close>

text \<open>
  C6. For every video and every two distinct rank indices the two formatted lines differ,
  and they differ in the rank number only: every line is the two asterisks, the decimal
  rank, and a rest that does not depend on the rank.
\<close>

theorem format_search_result_rank:
  "(i \<noteq> j \<longrightarrow> format_search_result c i v \<noteq> format_search_result c j v) \<and>
   (\<exists>rest. \<forall>k. format_search_result c k v = ''**'' @ show_int k @ rest)"
proof
  show "i \<noteq> j \<longrightarrow> format_search_result c i v \<noteq> format_search_result c j v"
  proof
    assume "i \<noteq> j"
    then have "show_int i \<noteq> show_int j"
      using show_int_inj by blast
    then show "format_search_result c i v \<noteq> format_search_result c j v"
      by (simp add: format_search_result_def)
  qed
  show "\<exists>rest. \<forall>k. format_search_result c k v = ''**'' @ show_int k @ rest"
    unfolding format_search_result_def by (intro exI allI) (rule refl)
qed

theorem format_search_result_rank_witness:
  "(1::int) \<noteq> 2 \<and>
   format_search_result sample_constants 1 (hd sample_videos)
     \<noteq> format_search_result sample_constants 2 (hd sample_videos)"
  using format_search_result_rank [of 1 2 sample_constants "hd sample_videos"] by simp

section \<open>The search fetcher and the command handler\<close>

lemma get_statistics_world:
  "fst (get_statistics c env w vid) = Inr (Some s) \<Longrightarrow>
   snd (get_statistics c env w vid) = w\<lparr>requests := requests w @ [stats_request c vid]\<rparr>"
  by (auto simp: get_statistics_def http_get_def split: outcome.splits if_splits option.splits sum.splits)

lemma get_statistics_sent: "sent (snd (get_statistics c env w vid)) = sent w"
  by (auto simp: get_statistics_def http_get_def log_def split: outcome.splits option.splits sum.splits)

lemma collect_videos_sent: "sent (snd (collect_videos c lib env w items acc)) = sent w"
proof (induction items arbitrary: w acc)
  case Nil
  show ?case by simp
next
  case (Cons item items)
  show ?case
  proof (cases "item_video_id item")
    case (Inl e)
    then show ?thesis by simp
  next
    case (Inr vid)
    obtain r w1 where g: "get_statistics c env w vid = (r, w1)"
      by (cases "get_statistics c env w vid")
    then have w1: "sent w1 = sent w"
      using get_statistics_sent [of c env w vid] by simp
    show ?thesis
      using Inr g w1 Cons.IH [of w1]
      by (auto simp: log_def split: sum.splits option.splits)
  qed
qed

lemma search_youtube_sent: "sent (snd (search_youtube c lib env w search)) = sent w"
  by (auto simp: search_youtube_def http_get_def log_def collect_videos_sent
           split: outcome.splits option.splits sum.splits)

lemma collect_videos_all:
  assumes "length vids = length items" "length ss = length items" "length vs = length items"
    and "\<forall>k<length items.
           item_video_id (items ! k) = Inr (vids ! k) \<and>
           fst (get_statistics c env (w\<lparr>requests := requests w @ map (stats_request c) (take k vids)\<rparr>)
                  (vids ! k)) = Inr (Some (ss ! k)) \<and>
           make_video lib (items ! k) (ss ! k) = Inr (vs ! k)"
  shows "collect_videos c lib env w items acc =
           (Inr (Some (acc @ vs)), w\<lparr>requests := requests w @ map (stats_request c) vids\<rparr>)"
  using assms
proof (induction items arbitrary: w vids ss vs acc)
  case Nil
  then show ?case by simp
next
  case (Cons item items)
  obtain vid vids' where vids: "vids = vid # vids'"
    using Cons.prems(1) by (cases vids) auto
  obtain s ss' where ss: "ss = s # ss'"
    using Cons.prems(2) by (cases ss) auto
  obtain v vs' where vs: "vs = v # vs'"
    using Cons.prems(3) by (cases vs) auto
  have head: "item_video_id item = Inr vid"
    "fst (get_statistics c env w vid) = Inr (Some s)"
    "make_video lib item s = Inr v"
    using Cons.prems(4) [rule_format, of 0] by (simp_all add: vids ss vs)
  let ?w1 = "w\<lparr>requests := requests w @ [stats_request c vid]\<rparr>"
  have step: "get_statistics c env w vid = (Inr (Some s), ?w1)"
    using head(2) get_statistics_world [OF head(2)] by (simp add: prod_eq_iff)
  have tail: "\<forall>k<length items.
           item_video_id (items ! k) = Inr (vids' ! k) \<and>
           fst (get_statistics c env (?w1\<lparr>requests := requests ?w1 @ map (stats_request c) (take k vids')\<rparr>)
                  (vids' ! k)) = Inr (Some (ss' ! k)) \<and>
           make_video lib (items ! k) (ss' ! k) = Inr (vs' ! k)"
  proof (intro allI impI)
    fix k assume "k < length items"
    then show "item_video_id (items ! k) = Inr (vids' ! k) \<and>
           fst (get_statistics c env (?w1\<lparr>requests := requests ?w1 @ map (stats_request c) (take k vids')\<rparr>)
                  (vids' ! k)) = Inr (Some (ss' ! k)) \<and>
           make_video lib (items ! k) (ss' ! k) = Inr (vs' ! k)"
      using Cons.prems(4) [rule_format, of "Suc k"] by (simp add: vids ss vs)
  qed
  have "collect_videos c lib env ?w1 items (acc @ [v]) =
          (Inr (Some ((acc @ [v]) @ vs')), ?w1\<lparr>requests := requests ?w1 @ map (stats_request c) vids'\<rparr>)"
  proof (rule Cons.IH [of vids' ss' vs' ?w1 "acc @ [v]"])
    show "length vids' = length items" "length ss' = length items" "length vs' = length items"
      using Cons.prems(1-3) by (simp_all add: vids ss vs)
    show "\<forall>k<length items.
           item_video_id (items ! k) = Inr (vids' ! k) \<and>
           fst (get_statistics c env (?w1\<lparr>requests := requests ?w1 @ map (stats_request c) (take k vids')\<rparr>)
                  (vids' ! k)) = Inr (Some (ss' ! k)) \<and>
           make_video lib (items ! k) (ss' ! k) = Inr (vs' ! k)"
      by (rule tail)
  qed
  then show ?case
    by (simp add: head step vids vs)
qed

lemma collect_videos_append:
  "collect_videos c lib env w (xs @ ys) acc =
     (case collect_videos c lib env w xs acc of
        (Inr (Some acc'), w') \<Rightarrow> collect_videos c lib env w' ys acc'
      | r \<Rightarrow> r)"
  by (induction xs arbitrary: w acc) (auto split: sum.splits option.splits prod.splits)

text \<open>The search request has gone through and the loop starts on \<open>items\<close>.\<close>

lemma search_youtube_items:
  assumes "env (requests w) (search_request c search) = Responded r" "status r = 200"
    "body r = Some b" "and_then (py_getitem b ''items'') py_iter = Inr items"
  shows "search_youtube c lib env w search =
           collect_videos c lib env (w\<lparr>requests := requests w @ [search_request c search]\<rparr>) items []"
  using assms by (simp add: search_youtube_def http_get_def)

lemma fetched_all:
  assumes "\<forall>k<n. fetched c lib env w search items vids ss vs k"
  shows "\<forall>k<n.
           item_video_id (items ! k) = Inr (vids ! k) \<and>
           fst (get_statistics c env
                  ((w\<lparr>requests := requests w @ [search_request c search]\<rparr>)
                     \<lparr>requests := requests (w\<lparr>requests := requests w @ [search_request c search]\<rparr>)
                                    @ map (stats_request c) (take k vids)\<rparr>)
                  (vids ! k)) = Inr (Some (ss ! k)) \<and>
           make_video lib (items ! k) (ss ! k) = Inr (vs ! k)"
  using assms by (simp add: fetched_def stats_history_def)




subsection \<open>All or nothing\<close>

lemma make_video_fields:
  "make_video lib item stats = Inr v \<Longrightarrow>
   video_statistics v = stats \<and> item_video_id item = Inr (video_id v)"
  by (auto simp: make_video_def and_then_def split: sum.splits)

lemma collect_videos_sound:
  assumes "collect_videos c lib env w items acc = (Inr (Some vs), w')"
  shows "\<exists>new. vs = acc @ new \<and> length new = length items \<and>
           (\<forall>k<length new.
              fst (get_statistics c env
                     (w\<lparr>requests := requests w @ map (\<lambda>v. stats_request c (video_id v)) (take k new)\<rparr>)
                     (video_id (new ! k))) = Inr (Some (video_statistics (new ! k))))"
  using assms
proof (induction items arbitrary: w acc)
  case Nil
  then show ?case by simp
next
  case (Cons item items)
  from Cons.prems obtain vid where vid: "item_video_id item = Inr vid"
    by (cases "item_video_id item") auto
  obtain r w1 where g: "get_statistics c env w vid = (r, w1)"
    by (cases "get_statistics c env w vid")
  from Cons.prems vid g obtain stats where r: "r = Inr (Some stats)"
    by (auto split: sum.splits option.splits)
  from Cons.prems vid g r obtain v where v: "make_video lib item stats = Inr v"
    by (cases "make_video lib item stats") auto
  have w1: "w1 = w\<lparr>requests := requests w @ [stats_request c vid]\<rparr>"
    using get_statistics_world [of c env w vid stats] g r by simp
  have vf: "video_statistics v = stats" "video_id v = vid"
    using make_video_fields [OF v] vid by auto
  have rest: "collect_videos c lib env w1 items (acc @ [v]) = (Inr (Some vs), w')"
    using Cons.prems vid g r v by simp
  from Cons.IH [OF rest] obtain new where new: "vs = (acc @ [v]) @ new" "length new = length items"
    "\<forall>k<length new.
        fst (get_statistics c env
               (w1\<lparr>requests := requests w1 @ map (\<lambda>v. stats_request c (video_id v)) (take k new)\<rparr>)
               (video_id (new ! k))) = Inr (Some (video_statistics (new ! k)))"
    by blast
  have "\<forall>k<length (v # new).
          fst (get_statistics c env
                 (w\<lparr>requests := requests w @ map (\<lambda>v. stats_request c (video_id v)) (take k (v # new))\<rparr>)
                 (video_id ((v # new) ! k))) = Inr (Some (video_statistics ((v # new) ! k)))"
  proof (intro allI impI)
    fix k assume k: "k < length (v # new)"
    show "fst (get_statistics c env
                 (w\<lparr>requests := requests w @ map (\<lambda>v. stats_request c (video_id v)) (take k (v # new))\<rparr>)
                 (video_id ((v # new) ! k))) = Inr (Some (video_statistics ((v # new) ! k)))"
    proof (cases k)
      case 0
      then show ?thesis using g r vf by simp
    next
      case (Suc j)
      then have "j < length new" using k by simp
      then show ?thesis using new(3) [rule_format, of j] Suc by (simp add: w1 vf)
    qed
  qed
  then show ?case
    using new(1,2) by (intro exI [of _ "v # new"]) simp
qed


lemma collect_videos_abort:
  assumes "item_video_id item = Inr vid" "fst (get_statistics c env w vid) = Inr None"
  shows "fst (collect_videos c lib env w (item # items) acc) = Inr None"
  using assms by (cases "get_statistics c env w vid") simp

text \<open>
  C2. All or nothing. If the search answers 200 with its items, the items before position
  \<open>k\<close> go through and the statistics fetch of item \<open>k\<close> returns absence, then
  \<^verbatim>\<open>search_youtube\<close> returns absence, never a partial list. And every video of a returned
  list carries the statistics that the fetch for its identifier returned, at the
  moment the loop made that fetch.
\<close>

theorem search_youtube_all_or_nothing:
  "(env (requests w) (search_request c search) = Responded r \<and> status r = 200 \<and>
    body r = Some b \<and> and_then (py_getitem b ''items'') py_iter = Inr items \<and>
    k < length items \<and> length vids = length items \<and> length ss = k \<and> length vs = k \<and>
    (\<forall>j<k. fetched c lib env w search items vids ss vs j) \<and>
    item_video_id (items ! k) = Inr (vids ! k) \<and>
    fst (get_statistics c env (w\<lparr>requests := stats_history c w search vids k\<rparr>) (vids ! k))
      = Inr None
    \<longrightarrow> fst (search_youtube c lib env w search) = Inr None) \<and>
   (fst (search_youtube c lib env w search) = Inr (Some videos) \<longrightarrow>
    (\<forall>n<length videos.
       fst (get_statistics c env
              (w\<lparr>requests := stats_history c w search (map video_id videos) n\<rparr>)
              (video_id (videos ! n))) = Inr (Some (video_statistics (videos ! n)))))"
proof (intro conjI impI)
  assume h: "env (requests w) (search_request c search) = Responded r \<and> status r = 200 \<and>
    body r = Some b \<and> and_then (py_getitem b ''items'') py_iter = Inr items \<and>
    k < length items \<and> length vids = length items \<and> length ss = k \<and> length vs = k \<and>
    (\<forall>j<k. fetched c lib env w search items vids ss vs j) \<and>
    item_video_id (items ! k) = Inr (vids ! k) \<and>
    fst (get_statistics c env (w\<lparr>requests := stats_history c w search vids k\<rparr>) (vids ! k))
      = Inr None"
  let ?w1 = "w\<lparr>requests := requests w @ [search_request c search]\<rparr>"
  let ?wk = "?w1\<lparr>requests := requests ?w1 @ map (stats_request c) (take k vids)\<rparr>"
  have run: "search_youtube c lib env w search = collect_videos c lib env ?w1 items []"
    using h search_youtube_items [where env = env] by blast
  have split: "items = take k items @ items ! k # drop (Suc k) items"
    using h by (simp add: id_take_nth_drop)
  have "\<forall>j<length (take k items).
           item_video_id (take k items ! j) = Inr (take k vids ! j) \<and>
           fst (get_statistics c env
                  (?w1\<lparr>requests := requests ?w1 @ map (stats_request c) (take j (take k vids))\<rparr>)
                  (take k vids ! j)) = Inr (Some (ss ! j)) \<and>
           make_video lib (take k items ! j) (ss ! j) = Inr (vs ! j)"
    using h fetched_all [of k c lib env w search items vids ss vs] by (simp add: min_def)
  moreover have "length (take k vids) = length (take k items)" "length ss = length (take k items)"
    "length vs = length (take k items)"
    using h by simp_all
  ultimately have pre:
    "collect_videos c lib env ?w1 (take k items) [] = (Inr (Some ([] @ vs)), ?wk)"
    using collect_videos_all [where vids = "take k vids" and items = "take k items" and ss = ss
        and vs = vs and w = ?w1 and acc = "[]" and c = c and env = env and lib = lib]
    by blast
  have "?wk = w\<lparr>requests := stats_history c w search vids k\<rparr>"
    by (simp add: stats_history_def)
  then have "fst (collect_videos c lib env ?wk (items ! k # drop (Suc k) items) vs) = Inr None"
    using h by (intro collect_videos_abort [of _ "vids ! k"]) simp_all
  then have "fst (collect_videos c lib env ?w1 (take k items @ items ! k # drop (Suc k) items) [])
               = Inr None"
    using pre by (simp add: collect_videos_append)
  then show "fst (search_youtube c lib env w search) = Inr None"
    using run split by simp
next
  assume res: "fst (search_youtube c lib env w search) = Inr (Some videos)"
  let ?w1 = "w\<lparr>requests := requests w @ [search_request c search]\<rparr>"
  from res obtain items where "fst (collect_videos c lib env ?w1 items []) = Inr (Some videos)"
    by (auto simp: search_youtube_def http_get_def split: outcome.splits if_splits option.splits sum.splits)
  then have "collect_videos c lib env ?w1 items [] =
               (Inr (Some videos), snd (collect_videos c lib env ?w1 items []))"
    by (simp add: prod_eq_iff)
  from collect_videos_sound [OF this]
  have "\<forall>n<length videos.
          fst (get_statistics c env
                 (?w1\<lparr>requests := requests ?w1 @ map (\<lambda>v. stats_request c (video_id v)) (take n videos)\<rparr>)
                 (video_id (videos ! n))) = Inr (Some (video_statistics (videos ! n)))"
    by auto
  then show "\<forall>n<length videos.
       fst (get_statistics c env
              (w\<lparr>requests := stats_history c w search (map video_id videos) n\<rparr>)
              (video_id (videos ! n))) = Inr (Some (video_statistics (videos ! n)))"
    by (simp add: stats_history_def take_map comp_def)
qed


theorem search_youtube_all_or_nothing_witness:
  "fst (search_youtube sample_constants sample_library provider_second_fails new_world ''lofi'')
     = Inr None \<and>
   fst (get_statistics sample_constants provider_ok
          (new_world\<lparr>requests :=
             stats_history sample_constants new_world ''lofi'' (map video_id sample_videos) 1\<rparr>)
          (video_id (sample_videos ! 1)))
     = Inr (Some (video_statistics (sample_videos ! 1)))"
proof
  let ?vids = "[JStr ''abc123'', JStr ''xyz'']"
  let ?ss = "[sample_statistics]"
  let ?vs = "[hd sample_videos]"
  have search: "provider_second_fails (requests new_world) (search_request sample_constants ''lofi'')
                  = Responded \<lparr>status = 200, body = Some sample_search_body\<rparr>"
    by (simp add: provider_second_fails_def ok_def search_request_def)
  have items: "and_then (py_getitem sample_search_body ''items'') py_iter = Inr sample_items"
    by (simp add: and_then_def sample_search_body_def)
  have f0: "\<forall>j<1. fetched sample_constants sample_library provider_second_fails new_world ''lofi''
              sample_items ?vids ?ss ?vs j"
    by (simp add: fetched_def stats_history_def provider_second_fails_def sample_defs cog_defs)
  have lens: "1 < length sample_items" "length ?vids = length sample_items"
    by (simp_all add: sample_items_def)
  have vid: "item_video_id (sample_items ! 1) = Inr (?vids ! 1)"
    by (simp add: sample_defs cog_defs)
  have absent: "fst (get_statistics sample_constants provider_second_fails
                  (new_world\<lparr>requests := stats_history sample_constants new_world ''lofi'' ?vids 1\<rparr>)
                  (?vids ! 1)) = Inr None"
    by (simp add: stats_history_def provider_second_fails_def sample_defs cog_defs)
  show "fst (search_youtube sample_constants sample_library provider_second_fails new_world ''lofi'')
          = Inr None"
    using search_youtube_all_or_nothing
      [of provider_second_fails new_world sample_constants "''lofi''"
          "\<lparr>status = 200, body = Some sample_search_body\<rparr>" sample_search_body sample_items
          1 ?vids ?ss ?vs sample_library]
      search items f0 lens vid absent
    by simp
next
  have res: "fst (search_youtube sample_constants sample_library provider_ok new_world ''lofi'')
               = Inr (Some sample_videos)"
    by (simp add: provider_ok_def sample_defs cog_defs)
  have "1 < length sample_videos"
    by (simp add: sample_videos_def)
  then show "fst (get_statistics sample_constants provider_ok
          (new_world\<lparr>requests :=
             stats_history sample_constants new_world ''lofi'' (map video_id sample_videos) 1\<rparr>)
          (video_id (sample_videos ! 1)))
     = Inr (Some (video_statistics (sample_videos ! 1)))"
    using search_youtube_all_or_nothing
      [of provider_ok new_world sample_constants "''lofi''" _ _ _ _ _ _ _ sample_library
          sample_videos]
      res
    by blast
qed

subsection \<open>A refused search\<close>

text \<open>
  C3. When the search endpoint answers with a status other than 200, \<^verbatim>\<open>search_youtube\<close>
  returns absence and the only request it has made is the search request: none of the
  requests added goes to the statistics endpoint.
\<close>

theorem search_youtube_search_refused:
  assumes "env (requests w) (search_request c search) = Responded r" "status r \<noteq> 200"
  shows "fst (search_youtube c lib env w search) = Inr None \<and>
         requests (snd (search_youtube c lib env w search)) = requests w @ [search_request c search] \<and>
         filter (\<lambda>rq. req_url rq = STATS_API)
           (drop (length (requests w)) (requests (snd (search_youtube c lib env w search)))) = []"
  using assms
  by (simp add: search_youtube_def http_get_def log_def search_request_def STATS_API_def SEARCH_API_def)

theorem search_youtube_search_refused_witness:
  "fst (search_youtube sample_constants sample_library provider_refuses new_world ''lofi'') = Inr None \<and>
   requests (snd (search_youtube sample_constants sample_library provider_refuses new_world ''lofi''))
     = [search_request sample_constants ''lofi'']"
proof -
  have "provider_refuses (requests new_world) (search_request sample_constants ''lofi'')
          = Responded \<lparr>status = 403, body = None\<rparr>"
    by (simp add: provider_refuses_def forbidden_def)
  from search_youtube_search_refused [where env = provider_refuses and lib = sample_library, OF this]
  show ?thesis by (simp add: new_world_def)
qed

subsection \<open>The statistics fetcher\<close>

text \<open>
  C7. \<^verbatim>\<open>get_statistics\<close> returns absence exactly when the details endpoint answers with a
  status other than 200, and then it logs that status at error level. On a 200 answer
  whose body has \<^verbatim>\<open>items[0].statistics\<close> with \<^verbatim>\<open>viewCount\<close> and \<^verbatim>\<open>likeCount\<close>, it returns
  the statistics built from these two values.
\<close>

theorem get_statistics_outcomes:
  "(fst (get_statistics c env w vid) = Inr None \<longleftrightarrow>
      (\<exists>r. env (requests w) (stats_request c vid) = Responded r \<and> status r \<noteq> 200)) \<and>
   (env (requests w) (stats_request c vid) = Responded r \<and> status r \<noteq> 200 \<longrightarrow>
      logs (snd (get_statistics c env w vid)) =
        logs w @ [(ERROR, ''YouTube statistics response not successful: response code ''
                            @ show_int (status r))]) \<and>
   (env (requests w) (stats_request c vid) = Responded r \<and> status r = 200 \<and> body r = Some b \<and>
    py_getitem b ''items'' = Inr its \<and> py_getitem0 its = Inr it \<and>
    py_getitem it ''statistics'' = Inr st \<and>
    py_getitem st ''viewCount'' = Inr vc \<and> py_getitem st ''likeCount'' = Inr lc \<longrightarrow>
      fst (get_statistics c env w vid) = Inr (Some \<lparr>view_count = vc, like_count = lc\<rparr>))"
proof (intro conjI)
  show "fst (get_statistics c env w vid) = Inr None \<longleftrightarrow>
      (\<exists>r. env (requests w) (stats_request c vid) = Responded r \<and> status r \<noteq> 200)"
    by (auto simp: get_statistics_def http_get_def split: outcome.splits option.splits sum.splits)
  show "env (requests w) (stats_request c vid) = Responded r \<and> status r \<noteq> 200 \<longrightarrow>
      logs (snd (get_statistics c env w vid)) =
        logs w @ [(ERROR, ''YouTube statistics response not successful: response code ''
                            @ show_int (status r))]"
    by (simp add: get_statistics_def http_get_def log_def)
  show "env (requests w) (stats_request c vid) = Responded r \<and> status r = 200 \<and> body r = Some b \<and>
    py_getitem b ''items'' = Inr its \<and> py_getitem0 its = Inr it \<and>
    py_getitem it ''statistics'' = Inr st \<and>
    py_getitem st ''viewCount'' = Inr vc \<and> py_getitem st ''likeCount'' = Inr lc \<longrightarrow>
      fst (get_statistics c env w vid) = Inr (Some \<lparr>view_count = vc, like_count = lc\<rparr>)"
    by (simp add: get_statistics_def http_get_def extract_statistics_def and_then_def)
qed

theorem get_statistics_outcomes_witness:
  "fst (get_statistics sample_constants provider_refuses new_world (JStr ''abc123'')) = Inr None \<and>
   logs (snd (get_statistics sample_constants provider_refuses new_world (JStr ''abc123'')))
     = [(ERROR, ''YouTube statistics response not successful: response code 403'')] \<and>
   fst (get_statistics sample_constants provider_ok new_world (JStr ''abc123''))
     = Inr (Some \<lparr>view_count = JStr ''100'', like_count = JStr ''10''\<rparr>) \<and>
   fst (get_statistics sample_constants provider_ok new_world (JStr ''abc123'')) \<noteq> Inr None"
proof -
  let ?st = "JObj [(''viewCount'', JStr ''100''), (''likeCount'', JStr ''10'')]"
  let ?it = "JObj [(''statistics'', ?st)]"
  have refused: "provider_refuses (requests new_world) (stats_request sample_constants (JStr ''abc123''))
                   = Responded \<lparr>status = 403, body = None\<rparr>"
    by (simp add: provider_refuses_def forbidden_def)
  have accepted: "provider_ok (requests new_world) (stats_request sample_constants (JStr ''abc123''))
                   = Responded \<lparr>status = 200, body = Some sample_stats_body\<rparr>"
    by (simp add: provider_ok_def ok_def stats_request_def STATS_API_def SEARCH_API_def)
  have shape: "py_getitem sample_stats_body ''items'' = Inr (JArr [?it])"
    "py_getitem0 (JArr [?it]) = Inr ?it" "py_getitem ?it ''statistics'' = Inr ?st"
    "py_getitem ?st ''viewCount'' = Inr (JStr ''100'')"
    "py_getitem ?st ''likeCount'' = Inr (JStr ''10'')"
    by (simp_all add: sample_stats_body_def)
  have code: "show_int 403 = ''403''"
    by (simp add: show_int_def show_nat.simps digit_char_def)
  show ?thesis
    using get_statistics_outcomes
        [of sample_constants provider_refuses new_world "JStr ''abc123''"
            "\<lparr>status = 403, body = None\<rparr>"]
      get_statistics_outcomes
        [of sample_constants provider_ok new_world "JStr ''abc123''"
            "\<lparr>status = 200, body = Some sample_stats_body\<rparr>" sample_stats_body
            "JArr [?it]" ?it ?st "JStr ''100''" "JStr ''10''"]
      refused accepted shape code
    by (simp add: new_world_def)
qed

subsection \<open>Structural errors\<close>

text \<open>The state of the loop when it reaches item \<open>k\<close>, the items before it having gone through.\<close>

lemma search_youtube_reaches:
  assumes "env (requests w) (search_request c search) = Responded r" "status r = 200"
    "body r = Some b" "and_then (py_getitem b ''items'') py_iter = Inr items"
    and "k < length items" "length vids = length items" "length ss = k" "length vs = k"
    and "\<forall>j<k. fetched c lib env w search items vids ss vs j"
  shows "search_youtube c lib env w search =
           collect_videos c lib env (w\<lparr>requests := stats_history c w search vids k\<rparr>)
             (items ! k # drop (Suc k) items) vs"
proof -
  let ?w1 = "w\<lparr>requests := requests w @ [search_request c search]\<rparr>"
  let ?wk = "?w1\<lparr>requests := requests ?w1 @ map (stats_request c) (take k vids)\<rparr>"
  have run: "search_youtube c lib env w search = collect_videos c lib env ?w1 items []"
    using search_youtube_items [where env = env, OF assms(1-4)] .
  have split: "items = take k items @ items ! k # drop (Suc k) items"
    using assms(5) by (simp add: id_take_nth_drop)
  have "\<forall>j<length (take k items).
           item_video_id (take k items ! j) = Inr (take k vids ! j) \<and>
           fst (get_statistics c env
                  (?w1\<lparr>requests := requests ?w1 @ map (stats_request c) (take j (take k vids))\<rparr>)
                  (take k vids ! j)) = Inr (Some (ss ! j)) \<and>
           make_video lib (take k items ! j) (ss ! j) = Inr (vs ! j)"
    using assms(5) fetched_all [OF assms(9)] by (simp add: min_def)
  moreover have "length (take k vids) = length (take k items)" "length ss = length (take k items)"
    "length vs = length (take k items)"
    using assms(5-8) by simp_all
  ultimately have pre:
    "collect_videos c lib env ?w1 (take k items) [] = (Inr (Some ([] @ vs)), ?wk)"
    using collect_videos_all [where vids = "take k vids" and items = "take k items" and ss = ss
        and vs = vs and w = ?w1 and acc = "[]" and c = c and env = env and lib = lib]
    by blast
  have wk: "?wk = w\<lparr>requests := stats_history c w search vids k\<rparr>"
    by (simp add: stats_history_def)
  have "search_youtube c lib env w search = collect_videos c lib env ?w1 items []"
    by (rule run)
  also have "\<dots> = collect_videos c lib env ?w1 (take k items @ items ! k # drop (Suc k) items) []"
    using split by (rule arg_cong [where f = "\<lambda>xs. collect_videos c lib env ?w1 xs []"])
  also have "\<dots> = collect_videos c lib env ?wk (items ! k # drop (Suc k) items) vs"
    using pre by (simp add: collect_videos_append)
  also have "\<dots> = collect_videos c lib env (w\<lparr>requests := stats_history c w search vids k\<rparr>)
                       (items ! k # drop (Suc k) items) vs"
    by (simp only: wk)
  finally show ?thesis .
qed

text \<open>
  C9. A 200 answer whose body has not the expected shape is not turned into absence: the
  error of the failing subscript leaves \<^verbatim>\<open>get_statistics\<close> (a missing \<^verbatim>\<open>items\<close>, an empty
  \<^verbatim>\<open>items\<close> array, a missing \<^verbatim>\<open>statistics\<close>, \<^verbatim>\<open>viewCount\<close> or \<^verbatim>\<open>likeCount\<close>), and it
  leaves \<^verbatim>\<open>search_youtube\<close> whether it arises in the search body or, at any position \<open>k\<close>
  of the loop, in the item, in its statistics fetch or in building its \<^verbatim>\<open>Video\<close>, however
  many videos have been collected before.
\<close>

theorem structural_errors_propagate:
  "(env (requests w) (stats_request c vid) = Responded r \<and> status r = 200 \<and> body r = Some b \<and>
    extract_statistics b = Inl e \<longrightarrow> fst (get_statistics c env w vid) = Inl e) \<and>
   (map_of kvs ''items'' = None \<longrightarrow> extract_statistics (JObj kvs) = Inl KeyError) \<and>
   extract_statistics (JObj [(''items'', JArr [])]) = Inl IndexError \<and>
   (map_of kvs ''statistics'' = None \<longrightarrow>
      extract_statistics (JObj [(''items'', JArr [JObj kvs])]) = Inl KeyError) \<and>
   (map_of kvs ''viewCount'' = None \<or> map_of kvs ''likeCount'' = None \<longrightarrow>
      extract_statistics (JObj [(''items'', JArr [JObj [(''statistics'', JObj kvs)]])])
        = Inl KeyError) \<and>
   (env (requests w) (search_request c search) = Responded r \<and> status r = 200 \<and>
    body r = Some b \<longrightarrow>
      (and_then (py_getitem b ''items'') py_iter = Inl e \<longrightarrow>
         fst (search_youtube c lib env w search) = Inl e) \<and>
      (and_then (py_getitem b ''items'') py_iter = Inr items \<and>
       k < length items \<and> length vids = length items \<and> length ss = k \<and> length vs = k \<and>
       (\<forall>j<k. fetched c lib env w search items vids ss vs j) \<longrightarrow>
         (item_video_id (items ! k) = Inl e \<longrightarrow>
            fst (search_youtube c lib env w search) = Inl e) \<and>
         (item_video_id (items ! k) = Inr (vids ! k) \<and>
          fst (get_statistics c env (w\<lparr>requests := stats_history c w search vids k\<rparr>) (vids ! k))
            = Inl e \<longrightarrow>
            fst (search_youtube c lib env w search) = Inl e) \<and>
         (item_video_id (items ! k) = Inr (vids ! k) \<and>
          fst (get_statistics c env (w\<lparr>requests := stats_history c w search vids k\<rparr>) (vids ! k))
            = Inr (Some s) \<and>
          make_video lib (items ! k) s = Inl e \<longrightarrow>
            fst (search_youtube c lib env w search) = Inl e)))"
proof (intro conjI impI)
  assume "env (requests w) (stats_request c vid) = Responded r \<and> status r = 200 \<and>
    body r = Some b \<and> extract_statistics b = Inl e"
  then show "fst (get_statistics c env w vid) = Inl e"
    by (simp add: get_statistics_def http_get_def)
next
  assume "map_of kvs ''items'' = None"
  then show "extract_statistics (JObj kvs) = Inl KeyError"
    by (simp add: extract_statistics_def and_then_def)
next
  show "extract_statistics (JObj [(''items'', JArr [])]) = Inl IndexError"
    by (simp add: extract_statistics_def and_then_def)
next
  assume "map_of kvs ''statistics'' = None"
  then show "extract_statistics (JObj [(''items'', JArr [JObj kvs])]) = Inl KeyError"
    by (simp add: extract_statistics_def and_then_def)
next
  assume "map_of kvs ''viewCount'' = None \<or> map_of kvs ''likeCount'' = None"
  then show "extract_statistics (JObj [(''items'', JArr [JObj [(''statistics'', JObj kvs)]])])
        = Inl KeyError"
    by (auto simp: extract_statistics_def and_then_def split: option.splits)
next
  assume "env (requests w) (search_request c search) = Responded r \<and> status r = 200 \<and>
    body r = Some b" "and_then (py_getitem b ''items'') py_iter = Inl e"
  then show "fst (search_youtube c lib env w search) = Inl e"
    by (simp add: search_youtube_def http_get_def)
next
  assume s: "env (requests w) (search_request c search) = Responded r \<and> status r = 200 \<and>
    body r = Some b"
    and p: "and_then (py_getitem b ''items'') py_iter = Inr items \<and>
       k < length items \<and> length vids = length items \<and> length ss = k \<and> length vs = k \<and>
       (\<forall>j<k. fetched c lib env w search items vids ss vs j)"
    and f: "item_video_id (items ! k) = Inl e"
  have "search_youtube c lib env w search =
           collect_videos c lib env (w\<lparr>requests := stats_history c w search vids k\<rparr>)
             (items ! k # drop (Suc k) items) vs"
    using s p by (intro search_youtube_reaches [where r = r and b = b and ss = ss]) simp_all
  then show "fst (search_youtube c lib env w search) = Inl e"
    using f by simp
next
  assume s: "env (requests w) (search_request c search) = Responded r \<and> status r = 200 \<and>
    body r = Some b"
    and p: "and_then (py_getitem b ''items'') py_iter = Inr items \<and>
       k < length items \<and> length vids = length items \<and> length ss = k \<and> length vs = k \<and>
       (\<forall>j<k. fetched c lib env w search items vids ss vs j)"
    and f: "item_video_id (items ! k) = Inr (vids ! k) \<and>
          fst (get_statistics c env (w\<lparr>requests := stats_history c w search vids k\<rparr>) (vids ! k))
            = Inl e"
  have "search_youtube c lib env w search =
           collect_videos c lib env (w\<lparr>requests := stats_history c w search vids k\<rparr>)
             (items ! k # drop (Suc k) items) vs"
    using s p by (intro search_youtube_reaches [where r = r and b = b and ss = ss]) simp_all
  then show "fst (search_youtube c lib env w search) = Inl e"
    using f
    by (cases "get_statistics c env (w\<lparr>requests := stats_history c w search vids k\<rparr>) (vids ! k)")
       simp
next
  assume s: "env (requests w) (search_request c search) = Responded r \<and> status r = 200 \<and>
    body r = Some b"
    and p: "and_then (py_getitem b ''items'') py_iter = Inr items \<and>
       k < length items \<and> length vids = length items \<and> length ss = k \<and> length vs = k \<and>
       (\<forall>j<k. fetched c lib env w search items vids ss vs j)"
    and f: "item_video_id (items ! k) = Inr (vids ! k) \<and>
          fst (get_statistics c env (w\<lparr>requests := stats_history c w search vids k\<rparr>) (vids ! k))
            = Inr (Some s) \<and>
          make_video lib (items ! k) s = Inl e"
  have "search_youtube c lib env w search =
           collect_videos c lib env (w\<lparr>requests := stats_history c w search vids k\<rparr>)
             (items ! k # drop (Suc k) items) vs"
    using s p by (intro search_youtube_reaches [where r = r and b = b and ss = ss]) simp_all
  then show "fst (search_youtube c lib env w search) = Inl e"
    using f
    by (cases "get_statistics c env (w\<lparr>requests := stats_history c w search vids k\<rparr>) (vids ! k)")
       simp
qed


theorem structural_errors_propagate_witness:
  "fst (get_statistics sample_constants provider_malformed new_world (JStr ''abc123'')) = Inl KeyError \<and>
   fst (get_statistics sample_constants provider_no_statistics new_world (JStr ''abc123''))
     = Inl IndexError \<and>
   fst (search_youtube sample_constants sample_library provider_malformed new_world ''lofi'')
     = Inl KeyError \<and>
   fst (search_youtube sample_constants sample_library provider_no_statistics new_world ''lofi'')
     = Inl IndexError \<and>
   fst (search_youtube sample_constants sample_library provider_second_malformed new_world ''lofi'')
     = Inl KeyError"
proof -
  let ?rq = "stats_request sample_constants (JStr ''abc123'')"
  let ?sq = "search_request sample_constants ''lofi''"
  let ?empty = "JObj [(''items'', JArr [])]"
  let ?vids = "[JStr ''abc123'', JStr ''xyz'']"
  have a: "provider_malformed (requests new_world) ?rq = Responded \<lparr>status = 200, body = Some (JObj [])\<rparr>"
    "provider_malformed (requests new_world) ?sq = Responded \<lparr>status = 200, body = Some (JObj [])\<rparr>"
    by (simp_all add: provider_malformed_def ok_def)
  have b: "provider_no_statistics (requests new_world) ?rq = Responded \<lparr>status = 200, body = Some ?empty\<rparr>"
    "provider_no_statistics (requests new_world) ?sq
       = Responded \<lparr>status = 200, body = Some sample_search_body\<rparr>"
    by (simp_all add: provider_no_statistics_def ok_def stats_request_def search_request_def
          STATS_API_def SEARCH_API_def)
  have c: "provider_second_malformed (requests new_world) ?sq
       = Responded \<lparr>status = 200, body = Some sample_search_body\<rparr>"
    by (simp add: provider_second_malformed_def ok_def search_request_def)
  have m: "map_of ([] :: (string \<times> json) list) ''items'' = None" by simp
  have x: "extract_statistics (JObj []) = Inl KeyError"
    using structural_errors_propagate [where kvs = "[]"] m by blast
  have y: "extract_statistics ?empty = Inl IndexError"
    using structural_errors_propagate by blast
  have i: "and_then (py_getitem (JObj []) ''items'') py_iter = Inl KeyError"
    by (simp add: and_then_def)
  have j: "and_then (py_getitem sample_search_body ''items'') py_iter = Inr sample_items"
    "item_video_id (sample_items ! 0) = Inr (?vids ! 0)"
    "item_video_id (sample_items ! 1) = Inr (?vids ! 1)"
    "0 < length sample_items" "1 < length sample_items" "length ?vids = length sample_items"
    by (simp_all add: and_then_def sample_search_body_def sample_items_def sample_item_def
          item_video_id_def)
  have g0: "fst (get_statistics sample_constants provider_no_statistics
             (new_world\<lparr>requests := stats_history sample_constants new_world ''lofi'' ?vids 0\<rparr>)
             (?vids ! 0)) = Inl IndexError"
    by (simp add: provider_no_statistics_def stats_history_def sample_defs cog_defs)
  have f0: "\<forall>j<1. fetched sample_constants sample_library provider_second_malformed new_world
              ''lofi'' sample_items ?vids [sample_statistics] [hd sample_videos] j"
    by (simp add: fetched_def stats_history_def provider_second_malformed_def sample_defs cog_defs)
  have g1: "fst (get_statistics sample_constants provider_second_malformed
             (new_world\<lparr>requests := stats_history sample_constants new_world ''lofi'' ?vids 1\<rparr>)
             (?vids ! 1)) = Inl KeyError"
    by (simp add: provider_second_malformed_def stats_history_def sample_defs cog_defs)
  have "fst (get_statistics sample_constants provider_malformed new_world (JStr ''abc123''))
          = Inl KeyError"
    using structural_errors_propagate
      [where env = provider_malformed and w = new_world and c = sample_constants
         and vid = "JStr ''abc123''" and r = "\<lparr>status = 200, body = Some (JObj [])\<rparr>"
         and b = "JObj []" and e = KeyError] a x
    by simp
  moreover have "fst (get_statistics sample_constants provider_no_statistics new_world (JStr ''abc123''))
     = Inl IndexError"
    using structural_errors_propagate
      [where env = provider_no_statistics and w = new_world and c = sample_constants
         and vid = "JStr ''abc123''" and r = "\<lparr>status = 200, body = Some ?empty\<rparr>"
         and b = ?empty and e = IndexError] b y
    by simp
  moreover have "fst (search_youtube sample_constants sample_library provider_malformed new_world ''lofi'')
     = Inl KeyError"
    using structural_errors_propagate
      [where env = provider_malformed and w = new_world and c = sample_constants
         and search = "''lofi''" and lib = sample_library
         and r = "\<lparr>status = 200, body = Some (JObj [])\<rparr>" and b = "JObj []" and e = KeyError]
      a i
    by simp
  moreover have "fst (search_youtube sample_constants sample_library provider_no_statistics new_world ''lofi'')
     = Inl IndexError"
    using structural_errors_propagate
      [where env = provider_no_statistics and w = new_world and c = sample_constants
         and search = "''lofi''" and lib = sample_library
         and r = "\<lparr>status = 200, body = Some sample_search_body\<rparr>" and b = sample_search_body
         and e = IndexError and items = sample_items and k = 0 and vids = ?vids
         and ss = "[]" and vs = "[]"]
      b j g0
    by simp
  moreover have "fst (search_youtube sample_constants sample_library provider_second_malformed new_world ''lofi'')
     = Inl KeyError"
    using structural_errors_propagate
      [where env = provider_second_malformed and w = new_world and c = sample_constants
         and search = "''lofi''" and lib = sample_library
         and r = "\<lparr>status = 200, body = Some sample_search_body\<rparr>" and b = sample_search_body
         and e = KeyError and items = sample_items and k = 1 and vids = ?vids
         and ss = "[sample_statistics]" and vs = "[hd sample_videos]"]
      c j f0 g1
    by simp
  ultimately show ?thesis by blast
qed

subsection \<open>The stored counts\<close>

text \<open>
  C4. The fields of the statistics that \<^verbatim>\<open>get_statistics\<close> builds are the decoded values
  themselves, with no conversion: when the provider sends the two counts as strings, as
  the video API does, the fields declared \<^verbatim>\<open>int\<close> hold strings.
\<close>

theorem get_statistics_keeps_strings:
  "fst (get_statistics sample_constants provider_ok new_world (JStr ''abc123''))
     = Inr (Some \<lparr>view_count = JStr ''100'', like_count = JStr ''10''\<rparr>) \<and>
   \<not> is_int (JStr ''100'') \<and> \<not> is_int (JStr ''10'')"
  by (simp add: provider_ok_def sample_defs cog_defs)

subsection \<open>Titles and user names\<close>

text \<open>
  C5. The title and the user name of a \<^verbatim>\<open>Video\<close> built from a search item are the item's
  snippet title and channel title, passed through \<^verbatim>\<open>unescape\<close> first and through
  \<^verbatim>\<open>escape_markdown\<close> second, and the formatted line shows exactly these two texts.
\<close>

theorem video_text_escaped:
  assumes "make_video lib item stats = Inr v"
    and "item_text item ''title'' = Inr t" "item_text item ''channelTitle'' = Inr u"
  shows "title v = escape_markdown lib (unescape lib t) \<and>
         username v = escape_markdown lib (unescape lib u) \<and>
         format_search_result c i v =
           ''**'' @ show_int i @ ''. ['' @ escape_markdown lib (unescape lib t) @ ''](''
             @ YOUTUBE_VIDEO_URL @ py_str (video_id v) @ '')**'' @ [CHR 0x0A]
           @ emoji_post_detail c @ '' '' @ emoji_user c @ '' ''
             @ escape_markdown lib (unescape lib u) @ '' ''
             @ emoji_view c @ '' '' @ py_str (view_count (video_statistics v)) @ '' ''
             @ emoji_like c @ '' '' @ py_str (like_count (video_statistics v)) @ [CHR 0x0A]"
proof -
  have "title v = escape_markdown lib (unescape lib t)"
    "username v = escape_markdown lib (unescape lib u)"
    using assms by (auto simp: make_video_def and_then_def split: sum.splits)
  then show ?thesis
    by (simp add: format_search_result_def)
qed

theorem video_text_escaped_witness:
  "make_video sample_library (sample_item ''abc123'' ''Lo-Fi &amp; *Chill*'' ''Beats_Co'')
     sample_statistics = Inr (hd sample_videos) \<and>
   title (hd sample_videos) = ''Lo-Fi & '' @ [CHR 0x5C] @ ''*Chill'' @ [CHR 0x5C] @ ''*'' \<and>
   username (hd sample_videos) = ''Beats'' @ [CHR 0x5C] @ ''_Co'' \<and>
   format_search_result sample_constants 1 (hd sample_videos) =
     ''**1. [Lo-Fi & '' @ [CHR 0x5C] @ ''*Chill'' @ [CHR 0x5C]
       @ ''*](https://www.youtube.com/watch?v=abc123)**'' @ [CHR 0x0A]
       @ ''> @ Beats'' @ [CHR 0x5C] @ ''_Co V 100 L 10'' @ [CHR 0x0A]"
proof -
  let ?item = "sample_item ''abc123'' ''Lo-Fi &amp; *Chill*'' ''Beats_Co''"
  have made: "make_video sample_library ?item sample_statistics = Inr (hd sample_videos)"
    by (simp add: sample_defs cog_defs)
  have texts: "item_text ?item ''title'' = Inr ''Lo-Fi &amp; *Chill*''"
    "item_text ?item ''channelTitle'' = Inr ''Beats_Co''"
    by (simp_all add: sample_item_def item_text_def and_then_def)
  have lib: "escape_markdown sample_library (unescape sample_library ''Lo-Fi &amp; *Chill*'')
               = ''Lo-Fi & '' @ [CHR 0x5C] @ ''*Chill'' @ [CHR 0x5C] @ ''*''"
    "escape_markdown sample_library (unescape sample_library ''Beats_Co'')
               = ''Beats'' @ [CHR 0x5C] @ ''_Co''"
    by (simp_all add: sample_library_def escape_chars_def)
  have one: "show_int 1 = ''1''"
    by (simp add: show_int_def show_nat.simps digit_char_def)
  show ?thesis
    using video_text_escaped [OF made texts, of sample_constants 1] made lib one
    by (simp add: sample_defs YOUTUBE_VIDEO_URL_def py_str_def)
qed

subsection \<open>The replies\<close>

text \<open>
  C8, as stated, fails: when a structural error leaves \<^verbatim>\<open>search_youtube\<close> the handler has
  no handler of its own, the error leaves the command and no reply has been sent.
\<close>

theorem youtube_no_reply_counterexample:
  "fst (youtube sample_constants sample_library provider_malformed new_world ''lofi'') = Inl KeyError \<and>
   sent (snd (youtube sample_constants sample_library provider_malformed new_world ''lofi'')) = [] \<and>
   length (sent (snd (youtube sample_constants sample_library provider_malformed new_world ''lofi'')))
     \<noteq> length (sent new_world) + 1"
  by (simp add: provider_malformed_def sample_defs cog_defs)

text \<open>
  C8, amended. An invocation in which \<^verbatim>\<open>search_youtube\<close> returns sends exactly one reply;
  when it returns absence or the empty list that reply is the fixed failure message,
  whatever the cause. An invocation in which an error leaves \<^verbatim>\<open>search_youtube\<close> ends in
  that error and sends no reply.
\<close>

theorem youtube_replies:
  "(fst (search_youtube c lib env w search) = Inr results \<longrightarrow>
      fst (youtube c lib env w search) = Inr () \<and>
      sent (snd (youtube c lib env w search)) =
        sent w @ [if truthy results then success_embed c search (the results) else failure_embed c]) \<and>
   (fst (search_youtube c lib env w search) = Inr None \<or>
    fst (search_youtube c lib env w search) = Inr (Some []) \<longrightarrow>
      sent (snd (youtube c lib env w search)) = sent w @ [failure_embed c]) \<and>
   (fst (search_youtube c lib env w search) = Inl e \<longrightarrow>
      fst (youtube c lib env w search) = Inl e \<and>
      sent (snd (youtube c lib env w search)) = sent w)"
proof -
  obtain res w1 where run: "search_youtube c lib env w search = (res, w1)"
    by (cases "search_youtube c lib env w search")
  then have "sent w1 = sent w"
    using search_youtube_sent [of c lib env w search] by simp
  then show ?thesis
    using run by (auto simp: youtube_def send_def)
qed

theorem youtube_replies_witness:
  "sent (snd (youtube sample_constants sample_library provider_refuses new_world ''lofi''))
     = [failure_embed sample_constants] \<and>
   sent (snd (youtube sample_constants sample_library provider_second_fails new_world ''lofi''))
     = [failure_embed sample_constants] \<and>
   sent (snd (youtube sample_constants sample_library provider_empty new_world ''lofi''))
     = [failure_embed sample_constants] \<and>
   sent (snd (youtube sample_constants sample_library provider_ok new_world ''lofi''))
     = [success_embed sample_constants ''lofi'' sample_videos] \<and>
   sent (snd (youtube sample_constants sample_library provider_malformed new_world ''lofi'')) = []"
proof -
  have a: "fst (search_youtube sample_constants sample_library provider_refuses new_world ''lofi'')
             = Inr None"
    by (simp add: provider_refuses_def sample_defs cog_defs)
  have b: "fst (search_youtube sample_constants sample_library provider_second_fails new_world ''lofi'')
             = Inr None"
    by (simp add: provider_second_fails_def sample_defs cog_defs)
  have c: "fst (search_youtube sample_constants sample_library provider_empty new_world ''lofi'')
             = Inr (Some [])"
    by (simp add: provider_empty_def sample_defs cog_defs)
  have d: "fst (search_youtube sample_constants sample_library provider_ok new_world ''lofi'')
             = Inr (Some sample_videos)"
    by (simp add: provider_ok_def sample_defs cog_defs)
  have e: "fst (search_youtube sample_constants sample_library provider_malformed new_world ''lofi'')
             = Inl KeyError"
    by (simp add: provider_malformed_def sample_defs cog_defs)
  have t: "truthy (Some sample_videos)"
    by (simp add: sample_videos_def)
  show ?thesis
    using youtube_replies [of sample_constants sample_library provider_refuses new_world "''lofi''"] a
      youtube_replies [of sample_constants sample_library provider_second_fails new_world "''lofi''"] b
      youtube_replies [of sample_constants sample_library provider_empty new_world "''lofi''"] c
      youtube_replies [of sample_constants sample_library provider_ok new_world "''lofi''"
                          "Some sample_videos"] d t
      youtube_replies [of sample_constants sample_library provider_malformed new_world "''lofi''"
                          _ KeyError] e
    by (simp add: new_world_def)
qed

subsection \<open>The link of the success reply\<close>

lemma hex_upper_not_space: "d < 16 \<Longrightarrow> hex_upper d \<noteq> CHR '' ''"
proof -
  assume "d < 16"
  then have "d \<in> {0,1,2,3,4,5,6,7} \<or> d \<in> {8,9,10,11,12,13,14,15}" by simp arith
  then show ?thesis by (auto simp: hex_upper_def)
qed

lemma of_char_div_16: "(of_char (ch :: char) :: nat) div 16 < 16"
proof -
  have "(of_char ch :: nat) < 16 * 16" by simp
  then show ?thesis by (rule less_mult_imp_div_less)
qed

lemma space_not_always_safe: "\<not> always_safe (CHR '' '')"
  by (simp add: always_safe_def)

lemma quote_plus_bytes:
  "quote_plus s =
     concat (map (\<lambda>ch. if ch = CHR '' '' then ''+''
                        else if always_safe ch then [ch]
                        else [CHR ''%'', hex_upper (of_char ch div 16), hex_upper (of_char ch mod 16)])
                 s)"
proof (cases "CHR '' '' \<in> set s")
  case False
  then have "map (quote_byte []) s =
       map (\<lambda>ch. if ch = CHR '' '' then ''+''
                        else if always_safe ch then [ch]
                        else [CHR ''%'', hex_upper (of_char ch div 16), hex_upper (of_char ch mod 16)]) s"
    by (auto simp: quote_byte_def)
  then have "concat (map (quote_byte []) s) =
       concat (map (\<lambda>ch. if ch = CHR '' '' then ''+''
                        else if always_safe ch then [ch]
                        else [CHR ''%'', hex_upper (of_char ch div 16), hex_upper (of_char ch mod 16)]) s)"
    by (rule arg_cong)
  then show ?thesis
    using False by (simp add: quote_plus_def quote_def)
next
  case True
  have "map (\<lambda>c. if c = CHR '' '' then CHR ''+'' else c) (quote_byte '' '' ch) =
        (if ch = CHR '' '' then ''+''
                        else if always_safe ch then [ch]
                        else [CHR ''%'', hex_upper (of_char ch div 16), hex_upper (of_char ch mod 16)])"
    for ch
    using hex_upper_not_space [OF of_char_div_16 [of ch]]
      hex_upper_not_space [of "of_char ch mod 16"] space_not_always_safe
    by (auto simp: quote_byte_def)
  then have "map (\<lambda>c. if c = CHR '' '' then CHR ''+'' else c) (quote '' '' s) =
     concat (map (\<lambda>ch. if ch = CHR '' '' then ''+''
                        else if always_safe ch then [ch]
                        else [CHR ''%'', hex_upper (of_char ch div 16), hex_upper (of_char ch mod 16)])
                 s)"
    by (simp add: quote_def map_concat comp_def)
  then show ?thesis
    using True by (simp add: quote_plus_def)
qed

text \<open>
  C10. The success reply links to the web search: its URL is the search page's address
  followed by \<^verbatim>\<open>quote_plus\<close> of the search text, in which a space is a plus sign, an
  unreserved character is itself and any other byte is a percent sign and two
  hexadecimal digits; its title holds the search text as typed, between backquotes.
\<close>

theorem success_reply_link:
  assumes "fst (search_youtube c lib env w search) = Inr (Some (v # vs))"
  shows "sent (snd (youtube c lib env w search)) = sent w @ [success_embed c search (v # vs)] \<and>
         embed_url (success_embed c search (v # vs)) =
           Some (''https://www.youtube.com/results?search_query='' @ quote_plus search) \<and>
         embed_title (success_embed c search (v # vs)) =
           emoji_youtube c @ '' YouTube results for '' @ [CHR 0x60] @ search @ [CHR 0x60] \<and>
         quote_plus search =
           concat (map (\<lambda>ch. if ch = CHR '' '' then ''+''
                              else if always_safe ch then [ch]
                              else [CHR ''%'', hex_upper (of_char ch div 16),
                                    hex_upper (of_char ch mod 16)])
                       search)"
proof -
  obtain w1 where run: "search_youtube c lib env w search = (Inr (Some (v # vs)), w1)"
    using assms by (cases "search_youtube c lib env w search") simp
  then have "sent w1 = sent w"
    using search_youtube_sent [of c lib env w search] by simp
  then have "sent (snd (youtube c lib env w search)) = sent w @ [success_embed c search (v # vs)]"
    using run by (simp add: youtube_def send_def)
  then show ?thesis
    using quote_plus_bytes [of search]
    by (simp add: success_embed_def YOUTUBE_SEARCH_URL_def)
qed

theorem success_reply_link_witness:
  "embed_url (last (sent (snd (youtube sample_constants sample_library provider_ok new_world
                                 ''lo fi & chill''))))
     = Some ''https://www.youtube.com/results?search_query=lo+fi+%26+chill'' \<and>
   embed_title (last (sent (snd (youtube sample_constants sample_library provider_ok new_world
                                   ''lo fi & chill''))))
     = ''YT YouTube results for '' @ [CHR 0x60] @ ''lo fi & chill'' @ [CHR 0x60]"
proof -
  have res: "fst (search_youtube sample_constants sample_library provider_ok new_world ''lo fi & chill'')
               = Inr (Some (hd sample_videos # tl sample_videos))"
    by (simp add: provider_ok_def sample_defs cog_defs)
  have q: "hex_upper 2 = CHR ''2''" "hex_upper 6 = CHR ''6''"
    by (simp_all add: hex_upper_def)
  show ?thesis
    using success_reply_link [OF res] q
    by (simp add: new_world_def sample_constants_def always_safe_def)
qed

end
